theory Spec2Isabelle
  imports Main
begin

section \<open>Server side: the stream encoder (index.js)\<close>

text \<open>
  index.js holds two versions of the encoder. They share \<open>legacy\<close>, \<open>retry\<close>,
  \<open>format\<close>, \<open>write\<close> and \<open>_write\<close> word for word; the first version adds compression
  (\<open>zipline\<close>, \<open>compress\<close>, the \<open>Content-Encoding\<close> branch of \<open>accept\<close>) and starts
  \<open>lastEventId\<close> at \<open>null\<close>, the second starts it at \<open>0\<close>. The shared functions are
  modelled once; the constructor and \<open>accept\<close> are modelled per version (\<open>SSE\<close>,
  \<open>accept\<close> for the first, \<open>SSE2\<close>, \<open>accept2\<close> for the second).

  JavaScript values are modelled by what the code does with them: a value that is only
  tested for truthiness is a \<open>bool\<close>, a value that is only concatenated into a string
  is the \<open>string\<close> it is coerced to, \<open>null\<close>/\<open>undefined\<close> is \<open>None\<close>. A
  \<open>TypeError\<close> raised by a property access on \<open>null\<close>/\<open>undefined\<close> is the value
  \<open>Inl TypeError\<close>. The message counter \<open>this.id\<close> starts at 0 and is only ever
  incremented by one; JavaScript numbers count exactly up to \<open>2 ^ 53\<close>, more writes
  than a connection can see, so the counter is a \<open>nat\<close>.

  \<open>jsnum\<close> is the result of the unary \<open>+\<close> on a string: \<open>Integer n\<close> for a plain
  decimal numeral up to \<open>2 ^ 53\<close>, \<open>NaN\<close>, and \<open>OtherNumber s\<close> for the number
  denoted by any other numeric literal \<open>s\<close> (signed, fractional, with an exponent or a
  radix prefix, \<open>Infinity\<close>, or too large to be exact), whose value is not computed
  here.
\<close>

datatype error = TypeError

datatype jsnum = Integer nat | NaN | OtherNumber string

text \<open>
  The object the encoder holds in \<open>this.res\<close>: the HTTP response, or the compression
  stream \<open>compress\<close> returns in its place. It is seen through what the encoder does
  with it: the \<open>statusCode\<close> property, the store filled by \<open>setHeader\<close>, the
  \<open>headers\<close> property read by the constructor (\<open>None\<close> when the object has none),
  and \<open>write\<close>. \<open>has_setHeader\<close> says whether the object has the methods
  \<open>setHeader\<close> and \<open>getHeader\<close>: an HTTP response has them, a compression stream
  has not, and calling them there is a \<open>TypeError\<close>. \<open>writes\<close> logs the argument of
  every \<open>write\<close> call in order; \<open>verdict\<close> is the boolean the sink answers, given
  the log so far and the chunk. \<open>oid\<close> is the object's identity, for \<open>===\<close>.
\<close>

record sink =
  oid :: nat
  has_setHeader :: bool
  statusCode :: "nat option"
  out_headers :: "string \<rightharpoonup> string"
  res_headers :: "(string \<rightharpoonup> string) option"
  writes :: "string list"
  verdict :: "string list \<Rightarrow> string \<Rightarrow> bool"

record request =
  req_url :: string
  req_headers :: "string \<rightharpoonup> string"

text \<open>
  \<open>opt_numbering\<close> is \<open>options.numbering === true\<close>, \<open>opt_manual\<close> the truthiness of
  \<open>options.manual\<close>.
\<close>

record options =
  opt_numbering :: bool
  opt_manual :: bool

datatype codec = Deflate | DeflateRaw | Gzip

text \<open>
  What the encoder requires from outside the repository: \<open>zipline(req)\<close>, the query
  object of \<open>parse(req.url, true)\<close>, the identity and the \<open>write\<close> answers of the
  streams made by \<open>zlib.createDeflate()\<close>, \<open>zlib.createDeflateRaw()\<close> and
  \<open>zlib.createGzip()\<close>, and the new value \<open>vary\<close> gives the \<open>Vary\<close> header from its
  old value and the field.
\<close>

record deps =
  zipline :: "request \<Rightarrow> string option"
  parse_query :: "string \<Rightarrow> (string \<rightharpoonup> string)"
  zlib_oid :: "codec \<Rightarrow> nat"
  zlib_verdict :: "codec \<Rightarrow> string list \<Rightarrow> string \<Rightarrow> bool"
  vary_value :: "string option \<Rightarrow> string \<Rightarrow> string"

record encoder =
  sse_id :: nat
  sse_lastEventId :: "jsnum option"
  sse_encoding :: "string option"
  sse_res :: "sink option"
  sse_query :: "string \<rightharpoonup> string"
  sse_numbering :: bool
  sse_legacy :: bool
  sse_storage :: "(nat \<rightharpoonup> string) option"

text \<open>\<open>String|Array\<close>, the documented argument of \<open>write\<close>.\<close>

datatype msg = Single string | Array "string list"

subsection \<open>Number to string, string to number\<close>

definition digits :: string where
  "digits = ''0123456789''"

function string_of_nat :: "nat \<Rightarrow> string" where
  "string_of_nat n =
     (if n < 10 then [digits ! n] else string_of_nat (n div 10) @ [digits ! (n mod 10)])"
  by pat_completeness auto
termination
  by (relation "measure (\<lambda>n. n)") auto

declare string_of_nat.simps [simp del]

text \<open>
  The unary \<open>+\<close> of \<open>+req.headers['last-event-id']\<close>: the string is trimmed of white
  space; the empty string is 0; a \<open>StrNumericLiteral\<close> of the language is its number;
  anything else is \<open>NaN\<close>.
\<close>

definition is_ws :: "char \<Rightarrow> bool" where
  "is_ws c = (c \<in> set [CHR 0x09, CHR 0x0A, CHR 0x0B, CHR 0x0C, CHR 0x0D, CHR 0x20, CHR 0xA0])"

definition trim :: "string \<Rightarrow> string" where
  "trim s = rev (dropWhile is_ws (rev (dropWhile is_ws s)))"

definition is_digit :: "char \<Rightarrow> bool" where
  "is_digit c = (c \<in> set digits)"

definition digit_val :: "char \<Rightarrow> nat" where
  "digit_val c = of_char c - 48"

definition dec_value :: "string \<Rightarrow> nat" where
  "dec_value s = foldl (\<lambda>n c. 10 * n + digit_val c) 0 s"

definition decimal_digits :: "string \<Rightarrow> bool" where
  "decimal_digits s = (s \<noteq> [] \<and> list_all is_digit s)"

definition signed_integer :: "string \<Rightarrow> bool" where
  "signed_integer s =
     (case s of
        [] \<Rightarrow> False
      | c # r \<Rightarrow> if c = CHR ''+'' \<or> c = CHR ''-'' then decimal_digits r else decimal_digits s)"

definition exponent_part_opt :: "string \<Rightarrow> bool" where
  "exponent_part_opt s =
     (case s of
        [] \<Rightarrow> True
      | c # r \<Rightarrow> (c = CHR ''e'' \<or> c = CHR ''E'') \<and> signed_integer r)"

definition unsigned_decimal :: "string \<Rightarrow> bool" where
  "unsigned_decimal s =
     (s = ''Infinity'' \<or>
      (let ip = takeWhile is_digit s; r1 = dropWhile is_digit s
       in case r1 of
            [] \<Rightarrow> ip \<noteq> []
          | c # r2 \<Rightarrow>
              if c = CHR ''.''
              then (let fp = takeWhile is_digit r2; r3 = dropWhile is_digit r2
                    in \<not> (ip = [] \<and> fp = []) \<and> exponent_part_opt r3)
              else ip \<noteq> [] \<and> exponent_part_opt r1))"

definition radix_digits :: "string \<Rightarrow> string \<Rightarrow> bool" where
  "radix_digits allowed s = (s \<noteq> [] \<and> list_all (\<lambda>c. c \<in> set allowed) s)"

definition non_decimal :: "string \<Rightarrow> bool" where
  "non_decimal s =
     (case s of
        c0 # x # r \<Rightarrow>
          c0 = CHR ''0'' \<and>
          (((x = CHR ''x'' \<or> x = CHR ''X'') \<and> radix_digits ''0123456789abcdefABCDEF'' r) \<or>
           ((x = CHR ''o'' \<or> x = CHR ''O'') \<and> radix_digits ''01234567'' r) \<or>
           ((x = CHR ''b'' \<or> x = CHR ''B'') \<and> radix_digits ''01'' r))
      | _ \<Rightarrow> False)"

definition str_numeric_literal :: "string \<Rightarrow> bool" where
  "str_numeric_literal s =
     (non_decimal s \<or>
      (case s of
         [] \<Rightarrow> False
       | c # r \<Rightarrow> if c = CHR ''+'' \<or> c = CHR ''-'' then unsigned_decimal r else unsigned_decimal s))"

definition to_number :: "string \<Rightarrow> jsnum" where
  "to_number s =
     (let t = trim s
      in if t = [] then Integer 0
         else if list_all is_digit t \<and> dec_value t \<le> 2 ^ 53 then Integer (dec_value t)
         else if str_numeric_literal t then OtherNumber t
         else NaN)"

subsection \<open>\<open>legacy\<close>\<close>

text \<open>
  \<open>/^Opera[^\/]*\/9/.test(ua)\<close>: the string starts with \<open>Opera\<close>, and the first \<open>/\<close>
  after that is followed by \<open>9\<close>.
\<close>

definition opera9 :: "string \<Rightarrow> bool" where
  "opera9 ua =
     (take 5 ua = ''Opera'' \<and> take 2 (dropWhile (\<lambda>c. c \<noteq> CHR ''/'') (drop 5 ua)) = ''/9'')"

text \<open>
  \<open>'_SSE_LEGACY' in query || headers['user-agent'] && regex.test(headers['user-agent'])\<close>.
  The result is only used for its truthiness. Reading \<open>headers['user-agent']\<close> of an
  undefined \<open>headers\<close> throws.
\<close>

definition legacy :: "(string \<rightharpoonup> string) \<Rightarrow> (string \<rightharpoonup> string) option \<Rightarrow> error + bool" where
  "legacy query headers =
     (if query ''_SSE_LEGACY'' \<noteq> None then Inr True
      else case headers of
        None \<Rightarrow> Inl TypeError
      | Some h \<Rightarrow>
          (case h ''user-agent'' of
             None \<Rightarrow> Inr False
           | Some ua \<Rightarrow> Inr (ua \<noteq> [] \<and> opera9 ua)))"

subsection \<open>\<open>format\<close>, \<open>_write\<close>, \<open>retry\<close>, \<open>write\<close>\<close>

definition format :: "encoder \<Rightarrow> string \<Rightarrow> string \<Rightarrow> string" where
  "format e key val = key @ '':'' @ (if sse_legacy e then '' '' else []) @ val @ ''\<newline>''"

definition sink_write :: "sink \<Rightarrow> string \<Rightarrow> bool \<times> sink" where
  "sink_write s chunk = (verdict s (writes s) chunk, s\<lparr>writes := writes s @ [chunk]\<rparr>)"

text \<open>\<open>_write\<close>.\<close>

definition priv_write :: "encoder \<Rightarrow> string \<Rightarrow> bool \<times> encoder" where
  "priv_write e packet =
     (case sse_res e of
        None \<Rightarrow> (False, e)
      | Some s \<Rightarrow>
          (let (ok, s') = sink_write s (packet @ ''\<newline>'') in (ok, e\<lparr>sse_res := Some s'\<rparr>)))"

text \<open>\<open>interval\<close> is the string the argument of \<open>retry\<close> is coerced to.\<close>

definition retry :: "encoder \<Rightarrow> string \<Rightarrow> bool \<times> encoder" where
  "retry e interval = priv_write e (format e ''retry'' interval)"

text \<open>The \<open>for\<close> loop of \<open>write\<close>, over the remaining elements of \<open>msg\<close>.\<close>

fun write_loop :: "encoder \<Rightarrow> string list \<Rightarrow> string \<Rightarrow> string" where
  "write_loop e [] payload = payload"
| "write_loop e (m # ms) payload = write_loop e ms (payload @ format e ''data'' m)"

definition storage_set :: "encoder \<Rightarrow> nat \<Rightarrow> string \<Rightarrow> encoder" where
  "storage_set e k payload =
     (case sse_storage e of
        None \<Rightarrow> e
      | Some st \<Rightarrow> e\<lparr>sse_storage := Some (st(k \<mapsto> payload))\<rparr>)"

text \<open>\<open>write\<close> (the name is a keyword of the proof language, hence \<open>write_msg\<close>).\<close>

definition write_msg :: "encoder \<Rightarrow> msg \<Rightarrow> bool \<times> encoder" where
  "write_msg e m =
     (let msgs = (case m of Array xs \<Rightarrow> xs | Single x \<Rightarrow> [x]);
          payload = write_loop e msgs []
      in if sse_legacy e then priv_write e (format e ''Event'' ''sse'')
         else if sse_numbering e then
           (let e1 = storage_set e (sse_id e) payload;
                payload' = format e1 ''id'' (string_of_nat (sse_id e1)) @ payload;
                e2 = e1\<lparr>sse_id := sse_id e1 + 1\<rparr>
            in priv_write e2 payload')
         else priv_write e payload)"

subsection \<open>\<open>compress\<close>, \<open>accept\<close> and the constructor, first version\<close>

text \<open>
  A new compression stream: it has \<open>write\<close>, it has no \<open>setHeader\<close>, and neither a
  \<open>statusCode\<close> nor a \<open>headers\<close> property yet.
\<close>

definition zlib_create :: "deps \<Rightarrow> codec \<Rightarrow> sink" where
  "zlib_create d c = \<lparr>oid = zlib_oid d c, has_setHeader = False, statusCode = None,
     out_headers = Map.empty, res_headers = None, writes = [], verdict = zlib_verdict d c\<rparr>"

text \<open>\<open>src.pipe(dest)\<close> returns \<open>dest\<close>.\<close>

definition pipe :: "sink \<Rightarrow> sink \<Rightarrow> sink" where
  "pipe src dest = dest"

definition compress :: "deps \<Rightarrow> string option \<Rightarrow> sink \<Rightarrow> sink" where
  "compress d encoding res =
     (if encoding = Some ''deflate'' then pipe res (zlib_create d Deflate)
      else if encoding = Some ''raw'' then pipe res (zlib_create d DeflateRaw)
      else if encoding = Some ''gzip'' then pipe res (zlib_create d Gzip)
      else res)"

text \<open>\<open>s.setHeader(name, val)\<close>; a \<open>TypeError\<close> on an object without the method.\<close>

definition setHeader :: "sink \<Rightarrow> string \<Rightarrow> string \<Rightarrow> error + sink" where
  "setHeader s name val =
     (if has_setHeader s then Inr (s\<lparr>out_headers := (out_headers s)(name \<mapsto> val)\<rparr>)
      else Inl TypeError)"

text \<open>\<open>vary(res, field)\<close> reads and sets the \<open>Vary\<close> header of \<open>res\<close>.\<close>

definition vary :: "deps \<Rightarrow> sink \<Rightarrow> string \<Rightarrow> error + sink" where
  "vary d s field = setHeader s ''Vary'' (vary_value d (out_headers s ''Vary'') field)"

text \<open>
  The part of \<open>accept\<close> both versions share: the status code and the four headers, in
  the order of the source. Assigning \<open>this.res.statusCode\<close> throws when \<open>this.res\<close> is
  \<open>null\<close>; on any object it succeeds. The first \<open>this.res.setHeader\<close> throws when
  \<open>this.res\<close> has no such method, and no header is set then.
\<close>

definition accept_headers :: "encoder \<Rightarrow> error + sink" where
  "accept_headers e =
     (case sse_res e of
        None \<Rightarrow> Inl TypeError
      | Some s \<Rightarrow>
          (case setHeader (s\<lparr>statusCode := Some 200\<rparr>) ''Transfer-Encoding'' ''chunked'' of
             Inl err \<Rightarrow> Inl err
           | Inr s2 \<Rightarrow>
               (case setHeader s2 ''Cache-Control'' ''no-cache'' of
                  Inl err \<Rightarrow> Inl err
                | Inr s3 \<Rightarrow>
                    (case setHeader s3 ''Connection'' ''keep-alive'' of
                       Inl err \<Rightarrow> Inl err
                     | Inr s4 \<Rightarrow>
                         setHeader s4 ''Content-Type''
                           (if sse_legacy e then ''text/x-dom-event-stream''
                            else ''text/event-stream'')))))"

text \<open>
  The end of \<open>accept\<close>, shared too: \<open>if (!req.headers['last-event-id']) return;\<close> (an
  absent header and the empty string are falsy), then the assignment.
\<close>

definition accept_last_event_id :: "encoder \<Rightarrow> request \<Rightarrow> encoder" where
  "accept_last_event_id e req =
     (case req_headers req ''last-event-id'' of
        None \<Rightarrow> e
      | Some h \<Rightarrow> if h = [] then e else e\<lparr>sse_lastEventId := Some (to_number h)\<rparr>)"

text \<open>The \<open>if (this.encoding)\<close> block of the first version's \<open>accept\<close>.\<close>

definition accept_encoding :: "deps \<Rightarrow> encoder \<Rightarrow> sink \<Rightarrow> error + sink" where
  "accept_encoding d e s5 =
     (case sse_encoding e of
        None \<Rightarrow> Inr s5
      | Some enc \<Rightarrow>
          if enc = [] then Inr s5
          else case setHeader s5 ''Content-Encoding'' enc of
                 Inl err \<Rightarrow> Inl err
               | Inr s6 \<Rightarrow> vary d s6 ''Content-Encoding'')"

definition accept :: "deps \<Rightarrow> encoder \<Rightarrow> request \<Rightarrow> error + encoder" where
  "accept d e req =
     (case accept_headers e of
        Inl err \<Rightarrow> Inl err
      | Inr s5 \<Rightarrow>
          (case accept_encoding d e s5 of
             Inl err \<Rightarrow> Inl err
           | Inr s7 \<Rightarrow> Inr (accept_last_event_id (e\<lparr>sse_res := Some s7\<rparr>) req)))"

text \<open>\<open>options = options || {}\<close>: no options are the defaults.\<close>

definition SSE :: "deps \<Rightarrow> request \<Rightarrow> sink \<Rightarrow> options option \<Rightarrow> error + encoder" where
  "SSE d req res opts =
     (let zipable = zipline d req;
          r = compress d zipable res;
          q = parse_query d (req_url req);
          numbering = (case opts of None \<Rightarrow> False | Some opt \<Rightarrow> opt_numbering opt);
          manual = (case opts of None \<Rightarrow> False | Some opt \<Rightarrow> opt_manual opt)
      in case legacy q (res_headers res) of
           Inl err \<Rightarrow> Inl err
         | Inr lg \<Rightarrow>
             (let e = \<lparr>sse_id = 0, sse_lastEventId = None,
                       sse_encoding = (if oid r = oid res then None else zipable),
                       sse_res = Some r, sse_query = q, sse_numbering = numbering,
                       sse_legacy = lg, sse_storage = None\<rparr>
              in if manual then Inr e else accept d e req))"

subsection \<open>\<open>accept\<close> and the constructor, second version\<close>

definition accept2 :: "encoder \<Rightarrow> request \<Rightarrow> error + encoder" where
  "accept2 e req =
     (case accept_headers e of
        Inl err \<Rightarrow> Inl err
      | Inr s5 \<Rightarrow> Inr (accept_last_event_id (e\<lparr>sse_res := Some s5\<rparr>) req))"

definition SSE2 :: "deps \<Rightarrow> request \<Rightarrow> sink \<Rightarrow> options option \<Rightarrow> error + encoder" where
  "SSE2 d req res opts =
     (let q = parse_query d (req_url req);
          numbering = (case opts of None \<Rightarrow> False | Some opt \<Rightarrow> opt_numbering opt);
          manual = (case opts of None \<Rightarrow> False | Some opt \<Rightarrow> opt_manual opt)
      in case legacy q (res_headers res) of
           Inl err \<Rightarrow> Inl err
         | Inr lg \<Rightarrow>
             (let e = \<lparr>sse_id = 0, sse_lastEventId = Some (Integer 0), sse_encoding = None,
                       sse_res = Some res, sse_query = q, sse_numbering = numbering,
                       sse_legacy = lg, sse_storage = None\<rparr>
              in if manual then Inr e else accept2 e req))"

section \<open>Client side: the transport\<close>

text \<open>
  The transport works on objects of the browser: the \<open>EventSource\<close> it constructs or
  the \<open>event-source\<close> element it mounts. \<open>world\<close> is the store of these connection
  handles, addressed by their position in \<open>handles\<close>, together with the module's
  \<open>unique\<close> counter, the static flag \<open>ServerSentEvents.legacy\<close> and the markup of the
  \<open>div\<close>s appended to the document body. A handle records the URL it was constructed
  against (the \<open>src\<close> attribute of an element), whether it was closed, and the listener
  bindings attached to it, in order.

  The code detaches listeners with \<open>removeListener\<close>, attaches them with
  \<open>addEventListener\<close>. \<open>has_removeListener\<close> says whether the handles of this
  environment are objects that offer a method of that name; calling it on an object
  that does not is a \<open>TypeError\<close>.
\<close>

datatype listener = LData | LError | LClose | LOpen

datatype handle_kind = EventSourceObject | EventSourceElement

record handle =
  h_kind :: handle_kind
  h_url :: "string option"
  h_withCredentials :: bool
  h_id :: string
  h_closed :: bool
  h_bindings :: "(string \<times> listener) list"

record world =
  unique :: nat
  legacy_api :: bool
  has_removeListener :: bool
  handles :: "handle list"
  divs :: "string list"

text \<open>
  \<open>t_listen\<close> is whether \<open>this.listen\<close> still holds the four listeners (\<open>destroy\<close>
  sets it to \<open>null\<close>); \<open>t_div\<close> is the position of the mounted \<open>div\<close> in \<open>divs\<close>.
\<close>

record transport =
  t_noreconnect :: bool
  t_api :: "nat option"
  t_url :: "string option"
  t_div :: "nat option"
  t_listen :: bool

record client_options =
  c_reconnect_false :: bool
  c_manual :: bool

definition upd_handle :: "world \<Rightarrow> nat \<Rightarrow> (handle \<Rightarrow> handle) \<Rightarrow> world" where
  "upd_handle w a f = w\<lparr>handles := (handles w)[a := f (handles w ! a)]\<rparr>"

text \<open>
  \<open>addEventListener\<close> of an event target: a binding already present is not added a
  second time.
\<close>

definition addEventListener :: "world \<Rightarrow> nat \<Rightarrow> string \<Rightarrow> listener \<Rightarrow> world" where
  "addEventListener w a ev l =
     upd_handle w a (\<lambda>h. if (ev, l) \<in> set (h_bindings h) then h
                         else h\<lparr>h_bindings := h_bindings h @ [(ev, l)]\<rparr>)"

definition removeListener :: "world \<Rightarrow> nat \<Rightarrow> string \<Rightarrow> listener \<Rightarrow> error + world" where
  "removeListener w a ev l =
     (if has_removeListener w
      then Inr (upd_handle w a (\<lambda>h. h\<lparr>h_bindings := removeAll (ev, l) (h_bindings h)\<rparr>))
      else Inl TypeError)"

text \<open>\<open>doc.getElementById(id)\<close>: the first mounted element with that id, from position \<open>i\<close> on.\<close>

fun getElementById :: "string \<Rightarrow> handle list \<Rightarrow> nat \<Rightarrow> nat option" where
  "getElementById ident [] i = None"
| "getElementById ident (h # hs) i =
     (if h_kind h = EventSourceElement \<and> h_id h = ident then Some i
      else getElementById ident hs (Suc i))"

text \<open>
  A call on the transport either returns or throws; both leave a transport and a world
  behind, since whatever the call did before it threw stays done.
\<close>

datatype outcome = Threw error transport world | Returned transport world

text \<open>
  \<open>end\<close>. It leaves \<open>this.api\<close> as it is. An address held in \<open>this.api\<close> is always
  that of an existing handle.
\<close>

definition t_end :: "world \<Rightarrow> transport \<Rightarrow> outcome" where
  "t_end w t =
     (case t_api t of
        None \<Rightarrow> Returned t w
      | Some a \<Rightarrow>
          (let w1 = (if h_kind (handles w ! a) = EventSourceObject
                     then upd_handle w a (\<lambda>h. h\<lparr>h_closed := True\<rparr>)
                     else upd_handle w a (\<lambda>h. h\<lparr>h_closed := True, h_url := None\<rparr>))
           in if \<not> t_listen t then Threw TypeError t w1
              else case removeListener w1 a ''message'' LData of
                Inl err \<Rightarrow> Threw err t w1
              | Inr w2 \<Rightarrow>
                  (case removeListener w2 a ''error'' LError of
                     Inl err \<Rightarrow> Threw err t w2
                   | Inr w3 \<Rightarrow>
                       (case removeListener w3 a ''open'' LOpen of
                          Inl err \<Rightarrow> Threw err t w3
                        | Inr w4 \<Rightarrow>
                            (case removeListener w4 a ''sse'' LData of
                               Inl err \<Rightarrow> Threw err t w4
                             | Inr w5 \<Rightarrow> Returned t w5)))))"

text \<open>
  \<open>initialize(url)\<close>: the connection is constructed against \<open>this.url\<close>; the parameter
  is stored afterwards.
\<close>

definition initialize :: "world \<Rightarrow> transport \<Rightarrow> string option \<Rightarrow> outcome" where
  "initialize w t url =
     (let a = length (handles w);
          w1 = w\<lparr>handles := handles w @
                 [\<lparr>h_kind = EventSourceObject, h_url = t_url t, h_withCredentials = True,
                   h_id = [], h_closed = False, h_bindings = []\<rparr>]\<rparr>;
          t1 = t\<lparr>t_api := Some a\<rparr>
      in if \<not> t_listen t1 then Threw TypeError t1 w1
         else Returned (t1\<lparr>t_url := url\<rparr>) (addEventListener w1 a ''message'' LData))"

text \<open>
  \<open>legacy(url)\<close>. \<open>url.indexOf\<close> throws on \<open>null\<close>. The markup assigned to
  \<open>innerHTML\<close> mounts one \<open>event-source\<close> element with the given \<open>src\<close> and \<open>id\<close>.
\<close>

definition t_legacy :: "world \<Rightarrow> transport \<Rightarrow> string option \<Rightarrow> outcome" where
  "t_legacy w t url =
     (let ident = ''_SSE_LEGACY='' @ string_of_nat (unique w);
          w1 = w\<lparr>unique := unique w + 1\<rparr>
      in case url of
           None \<Rightarrow> Threw TypeError t w1
         | Some u \<Rightarrow>
             (let u' = (if CHR ''?'' \<in> set u then ''&'' else ''?'') @ ident;
                  t1 = t\<lparr>t_div := Some (length (divs w1))\<rparr>;
                  w2 = w1\<lparr>divs := divs w1 @
                         [''<event-source src=\"'' @ u' @ ''\" id=\"'' @ ident @ ''\">''],
                       handles := handles w1 @
                         [\<lparr>h_kind = EventSourceElement, h_url = Some u',
                           h_withCredentials = False, h_id = ident, h_closed = False,
                           h_bindings = []\<rparr>]\<rparr>;
                  t2 = t1\<lparr>t_url := Some u', t_api := getElementById ident (handles w2) 0\<rparr>
              in case t_api t2 of
                   None \<Rightarrow> Threw TypeError t2 w2
                 | Some a \<Rightarrow>
                     if \<not> t_listen t2 then Threw TypeError t2 w2
                     else Returned t2 (addEventListener w2 a ''sse'' LData)))"

text \<open>\<open>open(url)\<close>; \<open>url || this.url\<close> takes \<open>this.url\<close> for \<open>undefined\<close> and for the empty string.\<close>

definition t_open :: "world \<Rightarrow> transport \<Rightarrow> string option \<Rightarrow> outcome" where
  "t_open w t url =
     (case (if t_api t \<noteq> None then t_end w t else Returned t w) of
        Threw err t0 w1 \<Rightarrow> Threw err t0 w1
      | Returned t0 w1 \<Rightarrow>
          (let url' = (if url \<noteq> None \<and> url \<noteq> Some [] then url else t_url t0)
           in case (if legacy_api w1 then t_legacy w1 t0 url' else initialize w1 t0 url') of
                Threw err t2 w2 \<Rightarrow> Threw err t2 w2
              | Returned t2 w2 \<Rightarrow>
                  (case t_api t2 of
                     None \<Rightarrow> Threw TypeError t2 w2
                   | Some a \<Rightarrow>
                       if \<not> t_listen t2 then Threw TypeError t2 w2
                       else Returned t2 (addEventListener
                                          (addEventListener
                                             (addEventListener w2 a ''error'' LError)
                                             a ''close'' LClose)
                                          a ''open'' LOpen))))"

text \<open>
  The constructor. The subscription of the optional callback \<open>fn\<close> to the transport's
  own \<open>data\<close> event touches no connection handle and is left out.
\<close>

definition ServerSentEvents :: "world \<Rightarrow> string option \<Rightarrow> client_options \<Rightarrow> outcome" where
  "ServerSentEvents w url copts =
     (let t = \<lparr>t_noreconnect = c_reconnect_false copts, t_api = None, t_url = None,
                t_div = None, t_listen = True\<rparr>
      in if \<not> c_manual copts then t_open w t url
         else Returned (t\<lparr>t_url := url\<rparr>) w)"

definition destroy :: "world \<Rightarrow> transport \<Rightarrow> outcome" where
  "destroy w t =
     (case t_end w t of
        Threw err t0 w1 \<Rightarrow> Threw err t0 w1
      | Returned t0 w1 \<Rightarrow> Returned (t0\<lparr>t_api := None, t_listen := False, t_url := None\<rparr>) w1)"

section \<open>Vocabulary of the properties\<close>

text \<open>
  A run of an encoder: any sequence of \<open>write\<close> and \<open>retry\<close> calls, each on the state
  the previous one left. \<open>sent\<close> is everything handed to the sink so far.
\<close>

datatype call = Write msg | Retry string

fun run :: "encoder \<Rightarrow> call list \<Rightarrow> encoder" where
  "run e [] = e"
| "run e (Write m # cs) = run (snd (write_msg e m)) cs"
| "run e (Retry i # cs) = run (snd (retry e i)) cs"

definition sent :: "encoder \<Rightarrow> string list" where
  "sent e = (case sse_res e of None \<Rightarrow> [] | Some s \<Rightarrow> writes s)"

text \<open>
  The wire format as the specification words it: the payload values of a message, one
  \<open>data\<close> frame per value, a frame group led by an \<open>id\<close> frame and closed by a blank
  line, and the groups a numbered standard encoder is to emit for a sequence of calls
  when its next sequence number is \<open>n\<close>.
\<close>

definition values_of :: "msg \<Rightarrow> string list" where
  "values_of m = (case m of Array xs \<Rightarrow> xs | Single x \<Rightarrow> [x])"

definition data_frames :: "string list \<Rightarrow> string" where
  "data_frames vals = concat (map (\<lambda>v. ''data:'' @ v @ ''\<newline>'') vals)"

definition frame_group :: "nat \<Rightarrow> string list \<Rightarrow> string" where
  "frame_group n vals = ''id:'' @ string_of_nat n @ ''\<newline>'' @ data_frames vals @ ''\<newline>''"

fun expected_wire :: "nat \<Rightarrow> call list \<Rightarrow> string list" where
  "expected_wire n [] = []"
| "expected_wire n (Write m # cs) = frame_group n (values_of m) # expected_wire (Suc n) cs"
| "expected_wire n (Retry i # cs) = (''retry:'' @ i @ ''\<newline>\<newline>'') # expected_wire n cs"

text \<open>
  A chunk carries a sequence number when one of its lines is an \<open>id\<close> frame: it starts
  with \<open>id:\<close>, or \<open>id:\<close> follows one of its newlines.
\<close>

fun id_line_after :: "string \<Rightarrow> bool" where
  "id_line_after [] = False"
| "id_line_after (c # cs) = ((c = CHR ''\<newline>'' \<and> take 3 cs = ''id:'') \<or> id_line_after cs)"

definition carries_id :: "string \<Rightarrow> bool" where
  "carries_id chunk = (take 3 chunk = ''id:'' \<or> id_line_after chunk)"

definition no_newline :: "string \<Rightarrow> bool" where
  "no_newline v = (CHR ''\<newline>'' \<notin> set v)"

text \<open>What a call of \<open>accept\<close> or of the constructor left on the sink of the encoder.\<close>

definition response_of :: "error + encoder \<Rightarrow> sink option" where
  "response_of r = (case r of Inl err \<Rightarrow> None | Inr e \<Rightarrow> sse_res e)"

definition header_of :: "error + encoder \<Rightarrow> string \<Rightarrow> string option" where
  "header_of r name = (case response_of r of None \<Rightarrow> None | Some s \<Rightarrow> out_headers s name)"

definition status_of :: "error + encoder \<Rightarrow> nat option" where
  "status_of r = (case response_of r of None \<Rightarrow> None | Some s \<Rightarrow> statusCode s)"

text \<open>
  \<open>open\<close> called on the transport a constructor or an earlier \<open>open\<close> returned; after
  a throw nothing more is called.
\<close>

definition then_open :: "outcome \<Rightarrow> string option \<Rightarrow> outcome" where
  "then_open r url = (case r of Threw err t w \<Rightarrow> Threw err t w | Returned t w \<Rightarrow> t_open w t url)"

text \<open>The status code and the three framing headers \<open>accept\<close> is to leave on the sink.\<close>

definition framing_ok :: "error + encoder \<Rightarrow> bool" where
  "framing_ok r =
     (status_of r = Some 200
      \<and> header_of r ''Transfer-Encoding'' = Some ''chunked''
      \<and> header_of r ''Cache-Control'' = Some ''no-cache''
      \<and> header_of r ''Connection'' = Some ''keep-alive'')"

text \<open>
  Projections of a constructor's or an \<open>open\<close>'s result: the dialect and the resume
  state of the encoder; what a call on the transport threw, the world it left, and for
  every connection handle of that world, in order of creation, whether it is closed
  and which listeners are bound to it, and the URL it is addressed to with its
  credentials flag.
\<close>

definition dialect_of :: "error + encoder \<Rightarrow> error + bool" where
  "dialect_of r = (case r of Inl err \<Rightarrow> Inl err | Inr e \<Rightarrow> Inr (sse_legacy e))"

definition resume_state_of :: "error + encoder \<Rightarrow> error + jsnum option" where
  "resume_state_of r = (case r of Inl err \<Rightarrow> Inl err | Inr e \<Rightarrow> Inr (sse_lastEventId e))"

definition thrown :: "outcome \<Rightarrow> error option" where
  "thrown r = (case r of Threw err t w \<Rightarrow> Some err | Returned t w \<Rightarrow> None)"

definition world_of :: "outcome \<Rightarrow> world" where
  "world_of r = (case r of Threw err t w \<Rightarrow> w | Returned t w \<Rightarrow> w)"

definition bindings_of :: "outcome \<Rightarrow> (bool \<times> (string \<times> listener) list) list" where
  "bindings_of r = map (\<lambda>h. (h_closed h, h_bindings h)) (handles (world_of r))"

definition targets_of :: "outcome \<Rightarrow> (string option \<times> bool) list" where
  "targets_of r = map (\<lambda>h. (h_url h, h_withCredentials h)) (handles (world_of r))"

subsection \<open>Concrete requests, sinks and environments\<close>

definition example_sink :: sink where
  "example_sink = \<lparr>oid = 0, has_setHeader = True, statusCode = None, out_headers = Map.empty,
     res_headers = Some Map.empty, writes = [], verdict = (\<lambda>log chunk. True)\<rparr>"

definition example_deps :: deps where
  "example_deps = \<lparr>zipline = (\<lambda>req. None),
     parse_query = (\<lambda>u. if u = ''/stream?_SSE_LEGACY=1'' then [''_SSE_LEGACY'' \<mapsto> ''1'']
                         else Map.empty),
     zlib_oid = (\<lambda>c. 1), zlib_verdict = (\<lambda>c log chunk. True),
     vary_value = (\<lambda>old field. field)\<rparr>"

text \<open>The same environment for a request that negotiates \<open>gzip\<close>.\<close>

definition gzip_deps :: deps where
  "gzip_deps = example_deps\<lparr>zipline := (\<lambda>req. Some ''gzip'')\<rparr>"

definition gzip_stream :: sink where
  "gzip_stream = \<lparr>oid = 1, has_setHeader = False, statusCode = None, out_headers = Map.empty,
     res_headers = None, writes = [], verdict = (\<lambda>log chunk. True)\<rparr>"

definition gzip_encoder :: encoder where
  "gzip_encoder = \<lparr>sse_id = 0, sse_lastEventId = None, sse_encoding = Some ''gzip'',
     sse_res = Some gzip_stream, sse_query = Map.empty, sse_numbering = False,
     sse_legacy = False, sse_storage = None\<rparr>"

definition manual_only :: options where
  "manual_only = \<lparr>opt_numbering = False, opt_manual = True\<rparr>"

definition plain_request :: request where
  "plain_request = \<lparr>req_url = ''/stream'', req_headers = Map.empty\<rparr>"

definition opera_request :: request where
  "opera_request = \<lparr>req_url = ''/stream'',
     req_headers = [''user-agent'' \<mapsto> ''Opera/9.64 (Windows NT 6.0; U; en) Presto/2.1.1'']\<rparr>"

definition resume_request :: "string \<Rightarrow> request" where
  "resume_request h = \<lparr>req_url = ''/stream'', req_headers = [''last-event-id'' \<mapsto> h]\<rparr>"

definition numbered :: options where
  "numbered = \<lparr>opt_numbering = True, opt_manual = False\<rparr>"

definition accepted_sink :: sink where
  "accepted_sink = example_sink\<lparr>statusCode := Some 200,
     out_headers := [''Transfer-Encoding'' \<mapsto> ''chunked'', ''Cache-Control'' \<mapsto> ''no-cache'',
                     ''Connection'' \<mapsto> ''keep-alive'', ''Content-Type'' \<mapsto> ''text/event-stream'']\<rparr>"

definition fresh_encoder :: encoder where
  "fresh_encoder = \<lparr>sse_id = 0, sse_lastEventId = None, sse_encoding = None,
     sse_res = Some accepted_sink, sse_query = Map.empty, sse_numbering = True,
     sse_legacy = False, sse_storage = None\<rparr>"

definition legacy_encoder :: encoder where
  "legacy_encoder = fresh_encoder\<lparr>sse_legacy := True\<rparr>"

definition detached_encoder :: encoder where
  "detached_encoder = fresh_encoder\<lparr>sse_res := None\<rparr>"

definition browser :: world where
  "browser = \<lparr>unique = 1, legacy_api = False, has_removeListener = False, handles = [], divs = []\<rparr>"

definition auto_opts :: client_options where
  "auto_opts = \<lparr>c_reconnect_false = False, c_manual = False\<rparr>"

definition manual_opts :: client_options where
  "manual_opts = \<lparr>c_reconnect_false = False, c_manual = True\<rparr>"

section \<open>Properties\<close>

subsection \<open>Helper lemmas\<close>

lemma write_loop_standard:
  "\<not> sse_legacy e \<Longrightarrow> write_loop e xs acc = acc @ data_frames xs"
  by (induction xs arbitrary: acc) (simp_all add: data_frames_def format_def)

lemma storage_set_fields [simp]:
  "sse_id (storage_set e k p) = sse_id e"
  "sse_res (storage_set e k p) = sse_res e"
  "sse_legacy (storage_set e k p) = sse_legacy e"
  "sse_numbering (storage_set e k p) = sse_numbering e"
  "sse_lastEventId (storage_set e k p) = sse_lastEventId e"
  by (simp_all add: storage_set_def split: option.splits)

lemma priv_write_Some:
  "sse_res e = Some s \<Longrightarrow>
   priv_write e p =
     (verdict s (writes s) (p @ ''\<newline>''), e\<lparr>sse_res := Some (s\<lparr>writes := writes s @ [p @ ''\<newline>'']\<rparr>)\<rparr>)"
  by (simp add: priv_write_def sink_write_def)

lemma priv_write_None: "sse_res e = None \<Longrightarrow> priv_write e p = (False, e)"
  by (simp add: priv_write_def)

lemma write_msg_numbered:
  assumes "sse_numbering e" "\<not> sse_legacy e" "sse_res e = Some s"
  shows "write_msg e m =
     (verdict s (writes s) (frame_group (sse_id e) (values_of m)),
      (storage_set e (sse_id e) (data_frames (values_of m)))
        \<lparr>sse_id := sse_id e + 1,
         sse_res := Some (s\<lparr>writes := writes s @ [frame_group (sse_id e) (values_of m)]\<rparr>)\<rparr>)"
  using assms
  by (simp add: write_msg_def Let_def write_loop_standard priv_write_Some frame_group_def
      format_def values_of_def)

lemma retry_Some:
  assumes "sse_res e = Some s"
  shows "retry e i =
     (verdict s (writes s) (format e ''retry'' i @ ''\<newline>''),
      e\<lparr>sse_res := Some (s\<lparr>writes := writes s @ [format e ''retry'' i @ ''\<newline>'']\<rparr>)\<rparr>)"
  using assms by (simp add: retry_def priv_write_Some)

lemma run_numbered:
  assumes "sse_numbering e" "\<not> sse_legacy e" "sse_res e = Some s"
  shows "sent (run e cs) = sent e @ expected_wire (sse_id e) cs
         \<and> sse_id (run e cs) = sse_id e + length (filter (\<lambda>c. case c of Write _ \<Rightarrow> True | Retry _ \<Rightarrow> False) cs)"
  using assms
proof (induction cs arbitrary: e s)
  case Nil
  then show ?case by simp
next
  case (Cons c cs)
  show ?case
  proof (cases c)
    case (Write m)
    let ?e' = "snd (write_msg e m)"
    have step: "write_msg e m = (verdict s (writes s) (frame_group (sse_id e) (values_of m)),
      (storage_set e (sse_id e) (data_frames (values_of m)))
        \<lparr>sse_id := sse_id e + 1,
         sse_res := Some (s\<lparr>writes := writes s @ [frame_group (sse_id e) (values_of m)]\<rparr>)\<rparr>)"
      using Cons.prems by (rule write_msg_numbered)
    have props: "sse_numbering ?e'" "\<not> sse_legacy ?e'"
      "sse_res ?e' = Some (s\<lparr>writes := writes s @ [frame_group (sse_id e) (values_of m)]\<rparr>)"
      "sse_id ?e' = Suc (sse_id e)"
      using Cons.prems by (simp_all add: step)
    from Cons.IH[OF props(1,2,3)] props(4) Cons.prems(3) Write
    show ?thesis by (simp add: sent_def props(3))
  next
    case (Retry i)
    let ?e' = "snd (retry e i)"
    have step: "retry e i = (verdict s (writes s) (format e ''retry'' i @ ''\<newline>''),
      e\<lparr>sse_res := Some (s\<lparr>writes := writes s @ [format e ''retry'' i @ ''\<newline>'']\<rparr>)\<rparr>)"
      using Cons.prems(3) by (rule retry_Some)
    have props: "sse_numbering ?e'" "\<not> sse_legacy ?e'"
      "sse_res ?e' = Some (s\<lparr>writes := writes s @ [format e ''retry'' i @ ''\<newline>'']\<rparr>)"
      "sse_id ?e' = sse_id e"
      using Cons.prems by (simp_all add: step)
    from Cons.IH[OF props(1,2,3)] props(4) Cons.prems(2,3) Retry
    show ?thesis by (simp add: sent_def props(3) format_def)
  qed
qed


lemma id_line_after_skip:
  "no_newline a \<Longrightarrow> id_line_after (a @ b) = id_line_after b"
  by (induction a) (auto simp: no_newline_def)

lemma id_line_after_frame:
  assumes "no_newline a"
  shows "id_line_after (a @ CHR ''\<newline>'' # r) = carries_id r"
  using id_line_after_skip[OF assms, of "CHR ''\<newline>'' # r"] by (simp add: carries_id_def)

lemma data_frames_no_id:
  "list_all no_newline vals \<Longrightarrow> \<not> carries_id (data_frames vals @ ''\<newline>'')"
proof (induction vals)
  case Nil
  then show ?case by (simp add: data_frames_def carries_id_def)
next
  case (Cons v vs)
  have nn: "no_newline (''data:'' @ v)"
    using Cons.prems by (simp add: no_newline_def)
  have rest: "\<not> carries_id (data_frames vs @ ''\<newline>'')"
    using Cons by simp
  have split: "data_frames (v # vs) @ ''\<newline>'' =
      (''data:'' @ v) @ CHR ''\<newline>'' # (data_frames vs @ ''\<newline>'')"
    by (simp add: data_frames_def)
  have "id_line_after (data_frames (v # vs) @ ''\<newline>'') = carries_id (data_frames vs @ ''\<newline>'')"
    unfolding split by (rule id_line_after_frame[OF nn])
  moreover have "take 3 (data_frames (v # vs) @ ''\<newline>'') \<noteq> ''id:''"
    by (simp add: data_frames_def)
  ultimately show ?case using rest by (simp add: carries_id_def)
qed

lemma frame_group_carries_id: "carries_id (frame_group n vals)"
  by (simp add: carries_id_def frame_group_def)

lemma write_msg_legacy:
  assumes "sse_legacy e" "sse_res e = Some s"
  shows "write_msg e m =
     (verdict s (writes s) ''Event: sse\<newline>\<newline>'',
      e\<lparr>sse_res := Some (s\<lparr>writes := writes s @ [''Event: sse\<newline>\<newline>'']\<rparr>)\<rparr>)"
  using assms by (simp add: write_msg_def Let_def priv_write_Some format_def)

lemma write_msg_plain:
  assumes "\<not> sse_numbering e" "\<not> sse_legacy e" "sse_res e = Some s"
  shows "write_msg e m =
     (verdict s (writes s) (data_frames (values_of m) @ ''\<newline>''),
      e\<lparr>sse_res := Some (s\<lparr>writes := writes s @ [data_frames (values_of m) @ ''\<newline>'']\<rparr>)\<rparr>)"
  using assms
  by (simp add: write_msg_def Let_def write_loop_standard priv_write_Some values_of_def)

lemma priv_write_id: "sse_id (snd (priv_write e p)) = sse_id e"
  by (simp add: priv_write_def sink_write_def split: option.splits)

lemma write_msg_id:
  "sse_id (snd (write_msg e m)) = (if sse_numbering e \<and> \<not> sse_legacy e then sse_id e + 1 else sse_id e)"
  by (simp add: write_msg_def Let_def priv_write_id)

lemma retry_id: "sse_id (snd (retry e i)) = sse_id e"
  by (simp add: retry_def priv_write_id)

lemma run_id_mono: "sse_id e \<le> sse_id (run e cs)"
proof (induction cs arbitrary: e)
  case Nil
  then show ?case by simp
next
  case (Cons c cs)
  show ?case
  proof (cases c)
    case (Write m)
    have "sse_id e \<le> sse_id (snd (write_msg e m))" by (simp add: write_msg_id)
    also have "\<dots> \<le> sse_id (run (snd (write_msg e m)) cs)" by (rule Cons.IH)
    finally show ?thesis using Write by simp
  next
    case (Retry i)
    have "sse_id e = sse_id (snd (retry e i))" by (simp add: retry_id)
    also have "\<dots> \<le> sse_id (run (snd (retry e i)) cs)" by (rule Cons.IH)
    finally show ?thesis using Retry by simp
  qed
qed

lemma accept_last_event_id_fields [simp]:
  "sse_id (accept_last_event_id e req) = sse_id e"
  "sse_res (accept_last_event_id e req) = sse_res e"
  "sse_legacy (accept_last_event_id e req) = sse_legacy e"
  "sse_numbering (accept_last_event_id e req) = sse_numbering e"
  by (simp_all add: accept_last_event_id_def split: option.splits)

lemma accept_headers_Some:
  assumes "sse_res e = Some s" and "has_setHeader s"
  shows "accept_headers e = Inr (s\<lparr>statusCode := Some 200,
      out_headers := (out_headers s)(''Transfer-Encoding'' \<mapsto> ''chunked'', ''Cache-Control'' \<mapsto> ''no-cache'',
        ''Connection'' \<mapsto> ''keep-alive'',
        ''Content-Type'' \<mapsto> (if sse_legacy e then ''text/x-dom-event-stream'' else ''text/event-stream''))\<rparr>)"
  using assms by (simp add: accept_headers_def setHeader_def)

lemma accept_keeps:
  assumes "accept d e req = Inr e'"
  shows "sse_id e' = sse_id e \<and> sse_numbering e' = sse_numbering e \<and> sse_legacy e' = sse_legacy e
         \<and> sse_res e' \<noteq> None"
  using assms by (auto simp: accept_def Let_def split: sum.splits)

lemma accept2_keeps:
  assumes "accept2 e req = Inr e'"
  shows "sse_id e' = sse_id e \<and> sse_numbering e' = sse_numbering e \<and> sse_legacy e' = sse_legacy e
         \<and> sse_res e' \<noteq> None"
  using assms by (auto simp: accept2_def split: sum.splits)

lemma SSE_fresh:
  assumes "SSE d req res opts = Inr e"
  shows "sse_id e = 0 \<and> sse_res e \<noteq> None"
  using assms
  by (auto simp: SSE_def Let_def split: sum.splits if_splits dest!: accept_keeps)

lemma SSE2_fresh:
  assumes "SSE2 d req res opts = Inr e"
  shows "sse_id e = 0 \<and> sse_res e \<noteq> None"
  using assms
  by (auto simp: SSE2_def Let_def split: sum.splits if_splits dest!: accept2_keeps)

lemma expected_wire_writes:
  "expected_wire n (map Write ms) = map (\<lambda>(k, m). frame_group k (values_of m)) (enumerate n ms)"
  by (induction ms arbitrary: n) simp_all

lemma SSE_example: "SSE example_deps plain_request example_sink (Some numbered) = Inr fresh_encoder"
  by (simp add: SSE_def Let_def example_deps_def plain_request_def example_sink_def numbered_def
      fresh_encoder_def accepted_sink_def compress_def legacy_def accept_def accept_headers_def
      accept_encoding_def setHeader_def accept_last_event_id_def)

lemma setHeader_Inr:
  assumes "setHeader s name v = Inr s'"
  shows "s' = s\<lparr>out_headers := (out_headers s)(name \<mapsto> v)\<rparr> \<and> has_setHeader s"
  using assms by (simp add: setHeader_def split: if_splits)

lemma accept_on_response:
  assumes "sse_res e = Some s" and "has_setHeader s"
  shows "framing_ok (accept d e req)
         \<and> header_of (accept d e req) ''Content-Type'' =
             Some (if sse_legacy e then ''text/x-dom-event-stream'' else ''text/event-stream'')
         \<and> framing_ok (accept2 e req)
         \<and> header_of (accept2 e req) ''Content-Type'' =
             Some (if sse_legacy e then ''text/x-dom-event-stream'' else ''text/event-stream'')"
  using assms
  by (simp add: accept_def accept2_def accept_headers_Some accept_encoding_def vary_def
      setHeader_def framing_ok_def status_of_def header_of_def response_of_def
      split: option.splits)

lemma accept_without_setHeader:
  assumes "sse_res e = Some s" and "\<not> has_setHeader s"
  shows "accept d e req = Inl TypeError \<and> accept2 e req = Inl TypeError"
  using assms by (simp add: accept_def accept2_def accept_headers_def setHeader_def)

lemma SSE_compressed_throws:
  assumes "zipline d req \<in> {Some ''deflate'', Some ''raw'', Some ''gzip''}"
      and "legacy (parse_query d (req_url req)) (res_headers res) = Inr lg"
      and "opts = None \<or> (\<exists>opt. opts = Some opt \<and> \<not> opt_manual opt)"
  shows "SSE d req res opts = Inl TypeError"
  using assms
  by (auto simp: SSE_def Let_def compress_def pipe_def zlib_create_def accept_def
      accept_headers_def setHeader_def)

lemmas server_eval =
  SSE_def SSE2_def Let_def example_deps_def plain_request_def opera_request_def resume_request_def
  example_sink_def compress_def legacy_def accept_def accept2_def accept_headers_def setHeader_def
  accept_encoding_def vary_def zlib_create_def pipe_def gzip_deps_def
  accept_last_event_id_def

lemmas number_eval =
  to_number_def trim_def is_ws_def is_digit_def digits_def dec_value_def digit_val_def
  str_numeric_literal_def non_decimal_def unsigned_decimal_def radix_digits_def
  exponent_part_opt_def signed_integer_def decimal_digits_def

lemmas client_eval =
  ServerSentEvents_def then_open_def t_open_def t_end_def initialize_def t_legacy_def
  addEventListener_def removeListener_def upd_handle_def browser_def auto_opts_def manual_opts_def
  Let_def string_of_nat.simps digits_def thrown_def world_of_def bindings_of_def targets_of_def

subsection \<open>Numbered frame groups\<close>

text \<open>
  C1. An encoder made by either version of the constructor, with numbering enabled and
  in the standard dialect, emits for its nth call of \<open>write\<close> (counted from 0) exactly
  one chunk: an \<open>id\<close> frame carrying n, one \<open>data\<close> frame per payload value in
  order, and the closing blank line. This holds for any sequence of calls, also with
  \<open>retry\<close> calls in between, which emit their own chunk and use up no number; so the
  ids are 0, 1, 2, ... without gaps. For a run of writes only, the chunks are the frame
  groups of the messages numbered from 0. The witness is the scenario of the
  specification: \<open>write(["a","b"])\<close> then \<open>write("c")\<close> on a new encoder.
\<close>

theorem C1_numbered_frames:
  assumes "SSE d req res opts = Inr e \<or> SSE2 d req res opts = Inr e"
      and "sse_numbering e" and "\<not> sse_legacy e"
  shows "sent (run e cs) = sent e @ expected_wire 0 cs
         \<and> sent (run e (map Write ms)) =
             sent e @ map (\<lambda>(n, m). frame_group n (values_of m)) (enumerate 0 ms)"
proof -
  from assms(1) have fresh: "sse_id e = 0 \<and> sse_res e \<noteq> None"
    using SSE_fresh SSE2_fresh by blast
  then obtain s where s: "sse_res e = Some s" by auto
  have gen: "sent (run e xs) = sent e @ expected_wire 0 xs" for xs
    using run_numbered[OF assms(2,3) s, of xs] fresh by simp
  show ?thesis using gen[of cs] gen[of "map Write ms"] by (simp add: expected_wire_writes)
qed

theorem C1_numbered_frames_witness:
  "SSE example_deps plain_request example_sink (Some numbered) = Inr fresh_encoder
   \<and> sent (run fresh_encoder [Write (Array [''a'', ''b'']), Write (Single ''c'')]) =
       [''id:0\<newline>data:a\<newline>data:b\<newline>\<newline>'', ''id:1\<newline>data:c\<newline>\<newline>'']"
proof -
  have c: "SSE example_deps plain_request example_sink (Some numbered) = Inr fresh_encoder"
    by (rule SSE_example)
  have n: "sse_numbering fresh_encoder" and l: "\<not> sse_legacy fresh_encoder"
    by (simp_all add: fresh_encoder_def)
  have "sent (run fresh_encoder [Write (Array [''a'', ''b'']), Write (Single ''c'')]) =
          sent fresh_encoder @ expected_wire 0 [Write (Array [''a'', ''b'']), Write (Single ''c'')]"
    using C1_numbered_frames[OF disjI1[OF c] n l,
        where cs = "[Write (Array [''a'', ''b'']), Write (Single ''c'')]"] by blast
  then show ?thesis
    using c by (simp add: sent_def fresh_encoder_def accepted_sink_def example_sink_def frame_group_def
        values_of_def data_frames_def string_of_nat.simps digits_def)
qed

subsection \<open>The legacy frame\<close>

text \<open>
  C2. In the legacy dialect, \<open>write\<close> of any message, a single value or an array of
  any length, hands the sink exactly the chunk \<open>Event: sse\<close> followed by the blank
  line, and changes nothing else of the encoder: the payload is not in the output and
  the sequence counter stays as it was.
\<close>

theorem C2_legacy_frame:
  assumes "sse_legacy e" "sse_res e = Some s"
  shows "write_msg e m =
     (verdict s (writes s) ''Event: sse\<newline>\<newline>'',
      e\<lparr>sse_res := Some (s\<lparr>writes := writes s @ [''Event: sse\<newline>\<newline>'']\<rparr>)\<rparr>)"
  using assms by (rule write_msg_legacy)

theorem C2_legacy_frame_witness:
  "sent (snd (write_msg legacy_encoder (Array [''a'', ''b'']))) = [''Event: sse\<newline>\<newline>'']
   \<and> sse_id (snd (write_msg legacy_encoder (Array [''a'', ''b'']))) = 0"
proof -
  have l: "sse_legacy legacy_encoder"
    by (simp add: legacy_encoder_def)
  have r: "sse_res legacy_encoder = Some accepted_sink"
    by (simp add: legacy_encoder_def fresh_encoder_def)
  have i: "sse_id legacy_encoder = 0" and w: "writes accepted_sink = []"
    by (simp_all add: legacy_encoder_def fresh_encoder_def accepted_sink_def example_sink_def)
  have "write_msg legacy_encoder (Array [''a'', ''b'']) =
     (verdict accepted_sink (writes accepted_sink) ''Event: sse\<newline>\<newline>'',
      legacy_encoder\<lparr>sse_res := Some (accepted_sink\<lparr>writes := writes accepted_sink @ [''Event: sse\<newline>\<newline>'']\<rparr>)\<rparr>)"
    by (rule C2_legacy_frame[OF l r])
  then show ?thesis using i w by (simp add: sent_def)
qed

subsection \<open>One line per frame\<close>

text \<open>
  C3. In either dialect \<open>format(key, value)\<close> is the key, a colon, the value and a
  newline, with one space after the colon exactly in the legacy dialect; when neither
  key nor value holds a newline, the result holds exactly one newline, at its end.
\<close>

theorem C3_format_line:
  "format e key val = key @ '':'' @ (if sse_legacy e then '' '' else []) @ val @ ''\<newline>''
   \<and> (format e key val = key @ '': '' @ val @ ''\<newline>'') = sse_legacy e
   \<and> (format e key val = key @ '':'' @ val @ ''\<newline>'') = (\<not> sse_legacy e)
   \<and> (no_newline key \<and> no_newline val \<longrightarrow>
        count_list (format e key val) CHR ''\<newline>'' = 1
        \<and> last (format e key val) = CHR ''\<newline>'')"
  by (auto simp: format_def no_newline_def count_list_0_iff)

theorem C3_format_line_witness:
  "format fresh_encoder ''data'' ''a'' = ''data:a\<newline>''
   \<and> format legacy_encoder ''data'' ''a'' = ''data: a\<newline>''
   \<and> count_list (format fresh_encoder ''data'' ''a'') CHR ''\<newline>'' = 1
   \<and> count_list (format legacy_encoder ''data'' ''a'') CHR ''\<newline>'' = 1"
  using C3_format_line[of fresh_encoder "''data''" "''a''"]
        C3_format_line[of legacy_encoder "''data''" "''a''"]
  by (simp add: no_newline_def fresh_encoder_def legacy_encoder_def)

subsection \<open>Which frame groups carry a sequence number\<close>

text \<open>
  C8. The sequence counter never decreases over any sequence of calls; \<open>retry\<close> leaves
  it alone, and \<open>write\<close> advances it, by one, exactly when numbering is enabled and the
  dialect is standard. With a sink attached and payload values free of newlines, the
  chunk a \<open>write\<close> emits has an \<open>id\<close> frame exactly when numbering is enabled and the
  dialect is standard, and the chunk of a \<open>retry\<close> has none.
\<close>

theorem C8_sequence_numbers:
  "sse_id e \<le> sse_id (run e cs)
   \<and> sse_id (snd (retry e i)) = sse_id e
   \<and> sse_id (snd (write_msg e m)) =
       (if sse_numbering e \<and> \<not> sse_legacy e then sse_id e + 1 else sse_id e)
   \<and> (sse_res e = Some s \<and> list_all no_newline (values_of m) \<and> no_newline i \<longrightarrow>
        (\<exists>chunk. sent (snd (write_msg e m)) = writes s @ [chunk]
                \<and> carries_id chunk = (sse_numbering e \<and> \<not> sse_legacy e))
        \<and> (\<exists>chunk. sent (snd (retry e i)) = writes s @ [chunk] \<and> \<not> carries_id chunk))"
proof -
  have a: "sse_id e \<le> sse_id (run e cs)" by (rule run_id_mono)
  have b: "sse_id (snd (retry e i)) = sse_id e" by (rule retry_id)
  have c: "sse_id (snd (write_msg e m)) =
       (if sse_numbering e \<and> \<not> sse_legacy e then sse_id e + 1 else sse_id e)"
    by (rule write_msg_id)
  have d: "(\<exists>chunk. sent (snd (write_msg e m)) = writes s @ [chunk]
                \<and> carries_id chunk = (sse_numbering e \<and> \<not> sse_legacy e))
        \<and> (\<exists>chunk. sent (snd (retry e i)) = writes s @ [chunk] \<and> \<not> carries_id chunk)"
    if h: "sse_res e = Some s" "list_all no_newline (values_of m)" "no_newline i"
  proof -
    have w: "\<exists>chunk. sent (snd (write_msg e m)) = writes s @ [chunk]
                \<and> carries_id chunk = (sse_numbering e \<and> \<not> sse_legacy e)"
    proof (cases "sse_legacy e")
      case True
      have "\<not> carries_id ''Event: sse\<newline>\<newline>''" by (simp add: carries_id_def)
      then show ?thesis using True by (simp add: write_msg_legacy[OF True h(1)] sent_def)
    next
      case False
      show ?thesis
      proof (cases "sse_numbering e")
        case True
        show ?thesis using True False
          by (simp add: write_msg_numbered[OF True False h(1)] sent_def frame_group_carries_id)
      next
        case nn: False
        show ?thesis using nn False data_frames_no_id[OF h(2)]
          by (simp add: write_msg_plain[OF nn False h(1)] sent_def)
      qed
    qed
    have nr: "no_newline (''retry:'' @ (if sse_legacy e then '' '' else []) @ i)"
      using h(3) by (simp add: no_newline_def)
    have "id_line_after ((''retry:'' @ (if sse_legacy e then '' '' else []) @ i) @ CHR ''\<newline>'' # ''\<newline>'')
          = carries_id ''\<newline>''"
      by (rule id_line_after_frame[OF nr])
    then have "\<not> carries_id (format e ''retry'' i @ ''\<newline>'')"
      by (simp add: carries_id_def format_def)
    then have r: "\<exists>chunk. sent (snd (retry e i)) = writes s @ [chunk] \<and> \<not> carries_id chunk"
      by (simp add: retry_Some[OF h(1)] sent_def)
    from w r show ?thesis by simp
  qed
  from a b c d show ?thesis by blast
qed

theorem C8_sequence_numbers_witness:
  "sse_id (snd (write_msg fresh_encoder (Single ''a''))) = 1
   \<and> sse_id (snd (write_msg legacy_encoder (Single ''a''))) = 0
   \<and> sse_id (snd (retry fresh_encoder ''3000'')) = 0
   \<and> (\<exists>chunk. sent (snd (write_msg legacy_encoder (Single ''a''))) = [chunk] \<and> \<not> carries_id chunk)
   \<and> (\<exists>chunk. sent (snd (write_msg fresh_encoder (Single ''a''))) = [chunk] \<and> carries_id chunk)
   \<and> (\<exists>chunk. sent (snd (retry fresh_encoder ''3000'')) = [chunk] \<and> \<not> carries_id chunk)"
proof -
  have r: "sse_res legacy_encoder = Some accepted_sink" "sse_res fresh_encoder = Some accepted_sink"
    by (simp_all add: legacy_encoder_def fresh_encoder_def)
  have v: "list_all no_newline (values_of (Single ''a''))" "no_newline ''3000''"
    by (simp_all add: values_of_def no_newline_def)
  have w: "writes accepted_sink = []"
    by (simp add: accepted_sink_def example_sink_def)
  have f: "sse_numbering fresh_encoder" "\<not> sse_legacy fresh_encoder" "sse_id fresh_encoder = 0"
          "sse_legacy legacy_encoder" "sse_id legacy_encoder = 0"
    by (simp_all add: fresh_encoder_def legacy_encoder_def)
  from C8_sequence_numbers[of fresh_encoder "[]" "''3000''" "Single ''a''" accepted_sink]
       C8_sequence_numbers[of legacy_encoder "[]" "''3000''" "Single ''a''" accepted_sink]
       r v w f
  show ?thesis by simp
qed

subsection \<open>\<open>accept\<close> on a compressed connection\<close>

text \<open>
  C9. When the request negotiates \<open>gzip\<close>, the first version's constructor keeps the
  gzip stream in \<open>this.res\<close>, and \<open>accept\<close> calls \<open>setHeader\<close> on that stream, which
  has no such method: \<open>accept\<close> throws a \<open>TypeError\<close>, called on the encoder a manual
  construction returned or from within the constructor, and no \<open>Content-Type\<close> is
  set. The second version, and the first on a request that negotiates no compression,
  set \<open>text/event-stream\<close> for the same standard-dialect request.
\<close>

theorem C9_accept_throws_on_compression_stream:
  "zipline gzip_deps plain_request = Some ''gzip''
   \<and> SSE gzip_deps plain_request example_sink (Some manual_only) = Inr gzip_encoder
   \<and> accept gzip_deps gzip_encoder plain_request = Inl TypeError
   \<and> header_of (accept gzip_deps gzip_encoder plain_request) ''Content-Type'' = None
   \<and> SSE gzip_deps plain_request example_sink None = Inl TypeError
   \<and> header_of (SSE gzip_deps plain_request example_sink None) ''Content-Type'' = None
   \<and> header_of (SSE2 gzip_deps plain_request example_sink None) ''Content-Type'' =
       Some ''text/event-stream''
   \<and> header_of (SSE example_deps plain_request example_sink None) ''Content-Type'' =
       Some ''text/event-stream''"
  by (simp add: server_eval header_of_def response_of_def gzip_encoder_def gzip_stream_def
      manual_only_def)

subsection \<open>The flush step\<close>

text \<open>
  C10. Without a sink, \<open>_write\<close> and \<open>retry\<close> return false and leave the encoder as
  it is, and \<open>write\<close> returns false and the encoder still has no sink: nothing is
  written, nothing is thrown. With a sink, \<open>_write\<close> hands it the packet followed by
  one newline, in a single call, and returns the sink's answer; \<open>retry\<close> and \<open>write\<close>
  make exactly one such call and return its answer.
\<close>

theorem C10_flush:
  "(sse_res e = None \<longrightarrow>
      priv_write e p = (False, e) \<and> retry e i = (False, e)
      \<and> fst (write_msg e m) = False \<and> sse_res (snd (write_msg e m)) = None)
   \<and> (sse_res e = Some s \<longrightarrow>
      priv_write e p =
        (verdict s (writes s) (p @ ''\<newline>''),
         e\<lparr>sse_res := Some (s\<lparr>writes := writes s @ [p @ ''\<newline>'']\<rparr>)\<rparr>)
      \<and> (\<exists>chunk. fst (retry e i) = verdict s (writes s) chunk
                 \<and> sse_res (snd (retry e i)) = Some (s\<lparr>writes := writes s @ [chunk]\<rparr>))
      \<and> (\<exists>chunk. fst (write_msg e m) = verdict s (writes s) chunk
                 \<and> sse_res (snd (write_msg e m)) = Some (s\<lparr>writes := writes s @ [chunk]\<rparr>)))"
proof -
  have n: "priv_write e p = (False, e) \<and> retry e i = (False, e)
      \<and> fst (write_msg e m) = False \<and> sse_res (snd (write_msg e m)) = None"
    if "sse_res e = None"
    using that by (simp add: retry_def write_msg_def Let_def priv_write_None)
  have y: "priv_write e p =
        (verdict s (writes s) (p @ ''\<newline>''),
         e\<lparr>sse_res := Some (s\<lparr>writes := writes s @ [p @ ''\<newline>'']\<rparr>)\<rparr>)
      \<and> (\<exists>chunk. fst (retry e i) = verdict s (writes s) chunk
                 \<and> sse_res (snd (retry e i)) = Some (s\<lparr>writes := writes s @ [chunk]\<rparr>))
      \<and> (\<exists>chunk. fst (write_msg e m) = verdict s (writes s) chunk
                 \<and> sse_res (snd (write_msg e m)) = Some (s\<lparr>writes := writes s @ [chunk]\<rparr>))"
    if h: "sse_res e = Some s"
  proof -
    have w: "\<exists>chunk. fst (write_msg e m) = verdict s (writes s) chunk
                 \<and> sse_res (snd (write_msg e m)) = Some (s\<lparr>writes := writes s @ [chunk]\<rparr>)"
    proof (cases "sse_legacy e")
      case True
      show ?thesis unfolding write_msg_legacy[OF True h] by (intro exI[of _ "''Event: sse\<newline>\<newline>''"]) simp
    next
      case False
      show ?thesis
      proof (cases "sse_numbering e")
        case True
        show ?thesis unfolding write_msg_numbered[OF True False h]
          by (intro exI[of _ "frame_group (sse_id e) (values_of m)"]) simp
      next
        case nn: False
        show ?thesis unfolding write_msg_plain[OF nn False h]
          by (intro exI[of _ "data_frames (values_of m) @ ''\<newline>''"]) simp
      qed
    qed
    have r: "\<exists>chunk. fst (retry e i) = verdict s (writes s) chunk
                 \<and> sse_res (snd (retry e i)) = Some (s\<lparr>writes := writes s @ [chunk]\<rparr>)"
      unfolding retry_Some[OF h] by (intro exI[of _ "format e ''retry'' i @ ''\<newline>''"]) simp
    show ?thesis using w r by (simp add: priv_write_Some[OF h])
  qed
  from n y show ?thesis by blast
qed

theorem C10_flush_witness:
  "priv_write detached_encoder ''data:x\<newline>'' = (False, detached_encoder)
   \<and> retry detached_encoder ''3000'' = (False, detached_encoder)
   \<and> fst (write_msg detached_encoder (Single ''x'')) = False
   \<and> priv_write fresh_encoder ''data:x\<newline>'' =
       (True, fresh_encoder\<lparr>sse_res := Some (accepted_sink\<lparr>writes := [''data:x\<newline>\<newline>'']\<rparr>)\<rparr>)"
proof -
  have d: "sse_res detached_encoder = None"
    by (simp add: detached_encoder_def)
  have a: "sse_res fresh_encoder = Some accepted_sink"
    by (simp add: fresh_encoder_def)
  have v: "writes accepted_sink = []" "verdict accepted_sink [] ''data:x\<newline>\<newline>''"
    by (simp_all add: accepted_sink_def example_sink_def)
  from C10_flush[of detached_encoder "''data:x\<newline>''" "''3000''" "Single ''x''" accepted_sink]
       C10_flush[of fresh_encoder "''data:x\<newline>''" "''3000''" "Single ''x''" accepted_sink]
       d a v
  show ?thesis by simp
qed

subsection \<open>Dialect detection reads the response\<close>

text \<open>
  C4. The constructor hands \<open>legacy\<close> the \<open>headers\<close> property of the response, not
  the headers of the request. A request without the query marker whose \<open>User-Agent\<close>
  is that of Opera 9.64 (it matches the signature) gets the standard dialect from both
  versions when the response has an empty \<open>headers\<close> object, and a \<open>TypeError\<close> when
  the response has no such property; a request without any \<open>User-Agent\<close> gets the
  legacy dialect when the response object carries the Opera one.
\<close>

theorem C4_response_headers_decide_dialect:
  "opera9 ''Opera/9.64 (Windows NT 6.0; U; en) Presto/2.1.1''
   \<and> req_headers opera_request ''user-agent'' = Some ''Opera/9.64 (Windows NT 6.0; U; en) Presto/2.1.1''
   \<and> dialect_of (SSE example_deps opera_request example_sink None) = Inr False
   \<and> dialect_of (SSE2 example_deps opera_request example_sink None) = Inr False
   \<and> dialect_of (SSE example_deps opera_request (example_sink\<lparr>res_headers := None\<rparr>) None) = Inl TypeError
   \<and> dialect_of (SSE example_deps plain_request
        (example_sink\<lparr>res_headers := Some [''user-agent'' \<mapsto> ''Opera/9.64'']\<rparr>) None) = Inr True"
  by (simp add: dialect_of_def opera9_def server_eval)

subsection \<open>The resume state\<close>

text \<open>
  C7. Without a \<open>Last-Event-ID\<close> header, the encoder of the second version has the
  resume state 0, the number of the first message, where the first version has
  \<open>null\<close>. In both versions the header \<open>42\<close> gives 42 and the header \<open>abc\<close> gives
  \<open>NaN\<close>, stored as it is.
\<close>

theorem C7_second_version_starts_at_zero:
  "resume_state_of (SSE2 example_deps plain_request example_sink None) = Inr (Some (Integer 0))
   \<and> resume_state_of (SSE example_deps plain_request example_sink None) = Inr None
   \<and> resume_state_of (SSE example_deps (resume_request ''42'') example_sink None) = Inr (Some (Integer 42))
   \<and> resume_state_of (SSE2 example_deps (resume_request ''42'') example_sink None) = Inr (Some (Integer 42))
   \<and> resume_state_of (SSE example_deps (resume_request ''abc'') example_sink None) = Inr (Some NaN)
   \<and> resume_state_of (SSE2 example_deps (resume_request ''abc'') example_sink None) = Inr (Some NaN)"
  by (simp add: resume_state_of_def server_eval number_eval)

subsection \<open>Opening a transport twice\<close>

text \<open>
  C5. A transport is constructed on \<open>/a\<close> and \<open>open\<close> is called with \<open>/b\<close>. Where
  connection handles have no \<open>removeListener\<close>, the implicit \<open>end\<close> throws: the first
  connection is closed with its four bindings still attached, and no second connection
  is made. Where they have one, the call returns; the first handle is closed but keeps
  its \<open>close\<close> listener, which \<open>end\<close> never detaches; the second handle has the four
  bindings.
\<close>

theorem C5_end_leaves_close_listener:
  "thrown (then_open (ServerSentEvents browser (Some ''/a'') auto_opts) (Some ''/b'')) = Some TypeError
   \<and> bindings_of (then_open (ServerSentEvents browser (Some ''/a'') auto_opts) (Some ''/b'')) =
      [(True, [(''message'', LData), (''error'', LError), (''close'', LClose), (''open'', LOpen)])]
   \<and> thrown (then_open (ServerSentEvents (browser\<lparr>has_removeListener := True\<rparr>) (Some ''/a'') auto_opts)
        (Some ''/b'')) = None
   \<and> bindings_of (then_open (ServerSentEvents (browser\<lparr>has_removeListener := True\<rparr>) (Some ''/a'') auto_opts)
        (Some ''/b'')) =
      [(True, [(''close'', LClose)]),
       (False, [(''message'', LData), (''error'', LError), (''close'', LClose), (''open'', LOpen)])]"
  by (simp add: client_eval)

subsection \<open>The URL a connection is addressed to\<close>

text \<open>
  C6. Under the standard strategy the connection is constructed against the URL the
  transport held before the call: \<open>null\<close> for a transport constructed on
  \<open>http://h/stream\<close>, and \<open>/a\<close> for a transport constructed manually on \<open>/a\<close> and
  opened with \<open>/b\<close>. Under the legacy strategy the source of the mounted element is
  the marker alone, behind \<open>?\<close> or \<open>&\<close>: the URL itself is dropped.
\<close>

theorem C6_connection_url:
  "targets_of (ServerSentEvents browser (Some ''http://h/stream'') auto_opts) = [(None, True)]
   \<and> targets_of (then_open (ServerSentEvents browser (Some ''/a'') manual_opts) (Some ''/b'')) =
       [(Some ''/a'', True)]
   \<and> targets_of (ServerSentEvents (browser\<lparr>legacy_api := True\<rparr>) (Some ''http://h/stream'') auto_opts) =
       [(Some ''?_SSE_LEGACY=1'', False)]
   \<and> targets_of (ServerSentEvents (browser\<lparr>legacy_api := True\<rparr>) (Some ''http://h/stream?x=1'') auto_opts) =
       [(Some ''&_SSE_LEGACY=1'', False)]"
  by (simp add: client_eval)

end
